theory Spec2Isabelle
  imports Main "HOL-Library.AList" "HOL-Library.Sublist"
begin

section \<open>Local Git workflow of \<open>git_operations.py\<close>\<close>

text \<open>
  The module drives three collaborators it does not implement: the version-control
  tool (through GitPython), the operating system (directories and files) and an HTTP
  template source.  The embedding keeps what the module changes in an explicit state
  (\<open>world\<close>: repositories, files and directories) and takes what the collaborators
  answer from an environment record (\<open>env\<close>), over which the general theorems quantify.
  Exceptions are values: a function returns \<open>(exn + 'a) \<times> world\<close>, \<open>Inl\<close> being a raise.
  The outer \<open>try: ... except Exception as e: logger.error(...); raise\<close> of every function
  re-raises the same exception and is therefore transparent; logging is not modelled.
\<close>

subsection \<open>Exceptions\<close>

datatype exn =
    ValueError string
  | GitCommandError
  | TypeError
  | InvalidGitRepositoryError
  | IndexError
  | OSError string
  | RequestException

subsection \<open>Strings and POSIX paths\<close>

definition quoted :: "string \<Rightarrow> string" where
  "quoted s = [CHR 0x27] @ s @ [CHR 0x27]"

definition endswith :: "string \<Rightarrow> string \<Rightarrow> bool" where
  "endswith s suf = (length suf \<le> length s \<and> drop (length s - length suf) s = suf)"

definition startswith :: "string \<Rightarrow> string \<Rightarrow> bool" where
  "startswith s pre = (take (length pre) s = pre)"

text \<open>\<open>sep.join(xs)\<close>.\<close>

fun str_join :: "string \<Rightarrow> string list \<Rightarrow> string" where
  "str_join sep [] = []"
| "str_join sep [x] = x"
| "str_join sep (x # y # ys) = x @ sep @ str_join sep (y # ys)"

text \<open>\<open>str.strip()\<close>: the ASCII characters for which \<open>str.isspace\<close> holds.\<close>

definition is_space :: "char \<Rightarrow> bool" where
  "is_space c = (c \<in> set [CHR 0x09, CHR 0x0A, CHR 0x0B, CHR 0x0C, CHR 0x0D,
                            CHR 0x1C, CHR 0x1D, CHR 0x1E, CHR 0x1F, CHR 0x20])"

definition strip :: "string \<Rightarrow> string" where
  "strip s = rev (dropWhile is_space (rev (dropWhile is_space s)))"

definition upper_char :: "char \<Rightarrow> char" where
  "upper_char c = (case map_of (zip ''abcdefghijklmnopqrstuvwxyz'' ''ABCDEFGHIJKLMNOPQRSTUVWXYZ'') c
                   of Some u \<Rightarrow> u | None \<Rightarrow> c)"

definition lower_char :: "char \<Rightarrow> char" where
  "lower_char c = (case map_of (zip ''ABCDEFGHIJKLMNOPQRSTUVWXYZ'' ''abcdefghijklmnopqrstuvwxyz'') c
                   of Some l \<Rightarrow> l | None \<Rightarrow> c)"

text \<open>\<open>str.capitalize()\<close> on ASCII text: first character upper-cased, the rest lower-cased.\<close>

fun capitalize :: "string \<Rightarrow> string" where
  "capitalize [] = []"
| "capitalize (c # cs) = upper_char c # map lower_char cs"

text \<open>\<open>str(n)\<close> for a length.\<close>

fun str_nat :: "nat \<Rightarrow> string" where
  "str_nat n = (if n < 10 then [''0123456789'' ! n]
                else str_nat (n div 10) @ [''0123456789'' ! (n mod 10)])"

text \<open>\<open>os.path.join(a, b)\<close>, \<open>os.path.basename\<close> and \<open>os.path.dirname\<close> of \<open>posixpath\<close>.\<close>

definition path_join :: "string \<Rightarrow> string \<Rightarrow> string" where
  "path_join a b =
     (if startswith b ''/'' then b
      else if a = [] \<or> endswith a ''/'' then a @ b
      else a @ ''/'' @ b)"

definition basename :: "string \<Rightarrow> string" where
  "basename p = rev (takeWhile (\<lambda>c. c \<noteq> CHR ''/'') (rev p))"

definition dirname :: "string \<Rightarrow> string" where
  "dirname p =
     (let head = rev (dropWhile (\<lambda>c. c \<noteq> CHR ''/'') (rev p))
      in if head \<noteq> [] \<and> \<not> list_all (\<lambda>c. c = CHR ''/'') head
         then rev (dropWhile (\<lambda>c. c = CHR ''/'') (rev head))
         else head)"

subsection \<open>Repositories\<close>

text \<open>
  A repository as the module observes it through GitPython: the commit objects (a commit
  is identified by its position in the object store), the local branches \<open>repo.heads\<close> in
  listing order, what \<open>HEAD\<close> points to (a branch, which is unborn while it has no entry
  in \<open>heads\<close>, or a detached commit), the remotes \<open>repo.remotes\<close>, the
  upstream configuration of the branches, whether an unresolved merge is in progress,
  and a journal of every git command the module has issued.
\<close>

record commit =
  c_message :: string
  c_parents :: "nat list"

datatype head = Branch string | Detached nat

datatype git_cmd =
    Checkout string
  | CheckoutNew string
  | BranchMove string string
  | CommitAllowEmpty string
  | IndexCommit string
  | AddAll
  | AddPath string
  | Merge string
  | MergeAbort
  | PushSetUpstream string string
  | RemoteAdd string string
  | RemoteRemove string

record repo =
  commits :: "commit list"
  heads :: "(string \<times> nat) list"
  HEAD :: head
  remotes :: "(string \<times> string) list"
  upstream :: "(string \<times> string) list"
  merging :: bool
  journal :: "git_cmd list"

text \<open>
  The world: the content of the regular files written, by path; the directories known
  to exist; the repositories, by path.  Paths are compared as they are written.
\<close>

record world =
  disk :: "string \<rightharpoonup> string"
  dirs :: "string set"
  repos :: "string \<rightharpoonup> repo"

subsection \<open>Environment\<close>

text \<open>
  What the collaborators answer: the account name in \<open>GITHUB_USERNAME\<close>, the branch
  name a fresh \<open>git init\<close> starts on, what \<open>repo.is_dirty(untracked_files=True)\<close>
  reports for the working tree, what the membership test \<open>name in repo.remote().refs\<close>
  answers, and the HTTP response.  The faults of the file system that do not follow
  from the world (permissions, a read-only or full device) are given by path, with the
  text of the exception: \<open>mkdir_fault\<close> for creating a directory, \<open>open_fault\<close> for
  opening a file for writing, \<open>write_fault\<close> for writing to the opened file, together
  with the number of characters that reached the file.  \<open>dir_status\<close> is what
  \<open>os.path.exists\<close> and \<open>os.listdir\<close> report for a path: it does not exist, it lists
  these names, or it exists and listing it raises (a permission error, not a directory).
\<close>

datatype dir_status = Missing | Listing "string list" | Unlistable string

datatype http_result = Response nat string | TransportError

datatype merge_result = UpToDate | FastForward | MergeCommit | Conflict | Refused

record env =
  username :: "string option"
  init_default_branch :: string
  init_fails :: "string \<Rightarrow> bool"
  dir_status :: "string \<Rightarrow> dir_status"
  set_rank :: "string \<Rightarrow> nat"
  mkdir_fault :: "string \<Rightarrow> string option"
  open_fault :: "string \<Rightarrow> string option"
  write_fault :: "string \<Rightarrow> (string \<times> nat) option"
  http_get :: "string \<Rightarrow> http_result"
  is_dirty :: "repo \<Rightarrow> bool"
  remote_ref_known :: "repo \<Rightarrow> string \<Rightarrow> bool"
  git_fails :: "git_cmd \<Rightarrow> repo \<Rightarrow> bool"
  merge_outcome :: "repo \<Rightarrow> string \<Rightarrow> merge_result"

subsection \<open>Project scaffolding: detection\<close>

text \<open>
  \<open>list(project_types)\<close> iterates a Python set of strings, whose order is fixed by the
  string hashing of the running process: it is modelled as a stable sort of the
  insertion order by a process-wide rank, so every order of the tags is possible.
\<close>

definition set_to_list :: "env \<Rightarrow> string list \<Rightarrow> string list" where
  "set_to_list e xs = sort_key (set_rank e) (remdups xs)"

text \<open>The body of the \<open>try\<close> of \<open>detect_project_type\<close>.\<close>

definition detect_body :: "env \<Rightarrow> string \<Rightarrow> exn + string list" where
  "detect_body e repo_path =
     (case dir_status e repo_path of
        Missing \<Rightarrow> Inr [''general'']
      | Unlistable msg \<Rightarrow> Inl (OSError msg)
      | Listing files \<Rightarrow>
          (let project_types = [];
               project_types =
                 (if (\<exists>f \<in> set files. endswith f ''.py'') \<or> ''requirements.txt'' \<in> set files
                  then project_types @ [''python''] else project_types);
               project_types =
                 (if (\<exists>f \<in> set files. endswith f ''.js'') \<or> ''package.json'' \<in> set files
                  then project_types @ [''node''] else project_types);
               project_types =
                 (if (\<exists>f \<in> set files. endswith f ''.rs'') \<or> ''Cargo.toml'' \<in> set files
                  then project_types @ [''rust''] else project_types);
               project_types =
                 (if project_types = [] then project_types @ [''general''] else project_types)
           in Inr (set_to_list e project_types)))"

text \<open>\<open>except Exception\<close>: any failure of the body gives \<open>["general"]\<close>.\<close>

definition detect_project_type :: "env \<Rightarrow> string \<Rightarrow> exn + string list" where
  "detect_project_type e repo_path =
     (case detect_body e repo_path of
        Inl ex \<Rightarrow> Inr [''general'']
      | Inr types \<Rightarrow> Inr types)"

subsection \<open>The version-control tool\<close>

text \<open>
  The git commands the module issues, with the effect each has on the observed
  repository.  A command raises \<open>GitCommandError\<close> when git rejects it in this state
  (the branch to check out is missing, the name to create is taken, no merge is in
  progress to abort, ...) or when the environment makes it fail (\<open>git_fails\<close>: the
  network, the working tree, the file system).  Whether a merge is a fast-forward, a
  merge commit, a conflict or is refused before it starts is the tool's answer
  (\<open>merge_outcome\<close>); a conflict leaves the merge in progress.  Staging changes nothing
  that is observed here.  Every command issued is appended to the journal.
\<close>

definition branch_names :: "repo \<Rightarrow> string list" where
  "branch_names r = map fst (heads r)"

definition remote_names :: "repo \<Rightarrow> string list" where
  "remote_names r = map fst (remotes r)"

definition tip :: "repo \<Rightarrow> nat option" where
  "tip r = (case HEAD r of Branch b \<Rightarrow> map_of (heads r) b | Detached c \<Rightarrow> Some c)"

definition set_tip :: "nat \<Rightarrow> repo \<Rightarrow> repo" where
  "set_tip c r =
     (case HEAD r of
        Branch b \<Rightarrow> r\<lparr>heads := AList.update b c (heads r)\<rparr>
      | Detached _ \<Rightarrow> r\<lparr>HEAD := Detached c\<rparr>)"

definition new_commit :: "string \<Rightarrow> nat list \<Rightarrow> repo \<Rightarrow> repo" where
  "new_commit m ps r =
     set_tip (length (commits r))
       (r\<lparr>commits := commits r @ [\<lparr>c_message = m, c_parents = ps\<rparr>]\<rparr>)"

fun git_effect :: "env \<Rightarrow> git_cmd \<Rightarrow> repo \<Rightarrow> bool \<times> repo" where
  "git_effect e (Checkout b) r =
     (if b \<in> set (branch_names r) then (True, r\<lparr>HEAD := Branch b\<rparr>) else (False, r))"
| "git_effect e (CheckoutNew b) r =
     (if b \<in> set (branch_names r) then (False, r)
      else (True, (case tip r of
                     None \<Rightarrow> r
                   | Some c \<Rightarrow> r\<lparr>heads := heads r @ [(b, c)]\<rparr>)\<lparr>HEAD := Branch b\<rparr>))"
| "git_effect e (BranchMove old new) r =
     (if old \<in> set (branch_names r) \<and> new \<notin> set (branch_names r)
      then (True, r\<lparr>heads := map (\<lambda>(n, c). (if n = old then new else n, c)) (heads r),
                     HEAD := (if HEAD r = Branch old then Branch new else HEAD r),
                     upstream := map (\<lambda>(n, u). (if n = old then new else n, u)) (upstream r)\<rparr>)
      else (False, r))"
| "git_effect e (CommitAllowEmpty m) r =
     (True, new_commit m (case tip r of None \<Rightarrow> [] | Some p \<Rightarrow> [p]) r)"
| "git_effect e (IndexCommit m) r =
     (True, new_commit m (case tip r of None \<Rightarrow> [] | Some p \<Rightarrow> [p]) r)"
| "git_effect e AddAll r = (True, r)"
| "git_effect e (AddPath p) r = (True, r)"
| "git_effect e (Merge s) r =
     (case map_of (heads r) s of
        None \<Rightarrow> (False, r)
      | Some sc \<Rightarrow>
          (case merge_outcome e r s of
             UpToDate \<Rightarrow> (True, r)
           | FastForward \<Rightarrow> (True, set_tip sc r)
           | MergeCommit \<Rightarrow>
               (True, new_commit (''Merge branch '' @ quoted s)
                        ((case tip r of None \<Rightarrow> [] | Some p \<Rightarrow> [p]) @ [sc]) r)
           | Conflict \<Rightarrow> (False, r\<lparr>merging := True\<rparr>)
           | Refused \<Rightarrow> (False, r)))"
| "git_effect e MergeAbort r =
     (if merging r then (True, r\<lparr>merging := False\<rparr>) else (False, r))"
| "git_effect e (PushSetUpstream rm b) r =
     (if rm \<in> set (remote_names r) \<and> b \<in> set (branch_names r)
      then (True, r\<lparr>upstream := AList.update b (rm @ ''/'' @ b) (upstream r)\<rparr>)
      else (False, r))"
| "git_effect e (RemoteAdd n url) r =
     (if n \<in> set (remote_names r) then (False, r)
      else (True, r\<lparr>remotes := remotes r @ [(n, url)]\<rparr>))"
| "git_effect e (RemoteRemove n) r =
     (if n \<in> set (remote_names r)
      then (True, r\<lparr>remotes := filter (\<lambda>(n', _). n' \<noteq> n) (remotes r),
                     upstream := filter (\<lambda>(_, u). \<not> startswith u (n @ ''/'')) (upstream r)\<rparr>)
      else (False, r))"

definition git :: "env \<Rightarrow> git_cmd \<Rightarrow> repo \<Rightarrow> (exn + unit) \<times> repo" where
  "git e c r =
     (case (if git_fails e c r then (False, r) else git_effect e c r) of
        (ok, r') \<Rightarrow>
          (if ok then Inr () else Inl GitCommandError, r'\<lparr>journal := journal r' @ [c]\<rparr>))"

text \<open>
  \<open>repo = git.Repo(repo_path)\<close> followed by the rest of a function: opening raises when
  there is no repository at the path; what the rest does to the repository is stored
  back, whether it returns or raises.
\<close>

definition with_repo ::
  "string \<Rightarrow> world \<Rightarrow> (repo \<Rightarrow> (exn + 'a) \<times> repo) \<Rightarrow> (exn + 'a) \<times> world" where
  "with_repo repo_path w f =
     (case repos w repo_path of
        None \<Rightarrow> (Inl InvalidGitRepositoryError, w)
      | Some r \<Rightarrow> (case f r of (res, r') \<Rightarrow> (res, w\<lparr>repos := (repos w)(repo_path \<mapsto> r')\<rparr>)))"

subsection \<open>The file system\<close>

text \<open>
  The components of a path between its separators, and the chain of directories that
  leads to it: \<open>/work/app/src\<close> gives \<open>/work\<close>, \<open>/work/app\<close>, \<open>/work/app/src\<close>.
\<close>

definition components :: "string \<Rightarrow> string list" where
  "components p =
     filter (\<lambda>c. c \<noteq> [])
       (foldr (\<lambda>ch acc. if ch = CHR ''/'' then [] # acc
                          else (case acc of [] \<Rightarrow> [[ch]] | a # as \<Rightarrow> (ch # a) # as))
              p [[]])"

fun chain_from :: "string \<Rightarrow> string list \<Rightarrow> string list" where
  "chain_from base [] = []"
| "chain_from base (c # cs) =
     (let d = (if base = [] \<or> base = ''/'' then base @ c else base @ ''/'' @ c)
      in d # chain_from d cs)"

definition dir_chain :: "string \<Rightarrow> string list" where
  "dir_chain d = chain_from (if startswith d ''/'' then ''/'' else []) (components d)"

text \<open>
  \<open>os.makedirs(d, exist_ok=True)\<close> raises on the empty path.  Otherwise it walks the
  chain from the top: a directory that exists is kept; a regular file in the way makes
  it raise (\<open>File exists\<close> for the last element, \<open>Not a directory\<close> for the element
  below an inner one); a missing directory is created, unless the environment makes
  \<open>mkdir\<close> fail.  The directories created before a failure stay.
\<close>

fun mkdir_chain :: "env \<Rightarrow> string list \<Rightarrow> world \<Rightarrow> (exn + unit) \<times> world" where
  "mkdir_chain e [] w = (Inr (), w)"
| "mkdir_chain e (d # ds) w =
     (if d \<in> dirs w then mkdir_chain e ds w
      else if disk w d \<noteq> None
      then (case ds of
              [] \<Rightarrow> (Inl (OSError (''[Errno 17] File exists: '' @ quoted d)), w)
            | d' # _ \<Rightarrow> (Inl (OSError (''[Errno 20] Not a directory: '' @ quoted d')), w))
      else (case mkdir_fault e d of
              Some m \<Rightarrow> (Inl (OSError m), w)
            | None \<Rightarrow> mkdir_chain e ds (w\<lparr>dirs := insert d (dirs w)\<rparr>)))"

definition makedirs :: "env \<Rightarrow> world \<Rightarrow> string \<Rightarrow> (exn + unit) \<times> world" where
  "makedirs e w d =
     (if d = [] then (Inl (OSError (''[Errno 2] No such file or directory: '' @ quoted [])), w)
      else mkdir_chain e (dir_chain d) w)"

text \<open>
  \<open>with open(p, "w") as f: f.write(content)\<close>.  Opening raises when the path ends with a
  separator or names a directory, or when the environment says so, and then changes
  nothing.  Once the file is open it has been truncated: a fault while writing leaves
  the part of the content that reached the file.  \<open>write_error\<close> is the exception the
  statement raises at a path, if any.
\<close>

definition write_error :: "env \<Rightarrow> world \<Rightarrow> string \<Rightarrow> exn option" where
  "write_error e w full_path =
     (if endswith full_path ''/'' \<or> full_path \<in> dirs w
      then Some (OSError (''[Errno 21] Is a directory: '' @ quoted full_path))
      else (case open_fault e full_path of
              Some m \<Rightarrow> Some (OSError m)
            | None \<Rightarrow>
                (case write_fault e full_path of
                   Some (m, n) \<Rightarrow> Some (OSError m)
                 | None \<Rightarrow> None)))"

definition write_text :: "env \<Rightarrow> world \<Rightarrow> string \<Rightarrow> string \<Rightarrow> (exn + unit) \<times> world" where
  "write_text e w full_path content =
     (if endswith full_path ''/'' \<or> full_path \<in> dirs w
      then (Inl (OSError (''[Errno 21] Is a directory: '' @ quoted full_path)), w)
      else (case open_fault e full_path of
              Some m \<Rightarrow> (Inl (OSError m), w)
            | None \<Rightarrow>
                (case write_fault e full_path of
                   Some (m, n) \<Rightarrow>
                     (Inl (OSError m), w\<lparr>disk := (disk w)(full_path \<mapsto> take n content)\<rparr>)
                 | None \<Rightarrow> (Inr (), w\<lparr>disk := (disk w)(full_path \<mapsto> content)\<rparr>))))"

text \<open>\<open>str(e)\<close> of a caught exception.\<close>

fun str_exn :: "exn \<Rightarrow> string" where
  "str_exn (ValueError m) = m"
| "str_exn (OSError m) = m"
| "str_exn GitCommandError = ''GitCommandError''"
| "str_exn TypeError = ''TypeError''"
| "str_exn InvalidGitRepositoryError = ''InvalidGitRepositoryError''"
| "str_exn IndexError = ''list index out of range''"
| "str_exn RequestException = ''RequestException''"

subsection \<open>Repository initializer\<close>

definition empty_repo :: "string \<Rightarrow> repo" where
  "empty_repo b = \<lparr>commits = [], heads = [], HEAD = Branch b, remotes = [], upstream = [],
                    merging = False, journal = []\<rparr>"

text \<open>
  \<open>git.Repo.init(path)\<close>: a repository already at the path is opened as it is; otherwise
  an empty one is created, on an unborn branch.
\<close>

definition repo_init :: "env \<Rightarrow> string \<Rightarrow> world \<Rightarrow> (exn + repo) \<times> world" where
  "repo_init e repo_path w =
     (if init_fails e repo_path then (Inl GitCommandError, w)
      else (case repos w repo_path of
              Some r \<Rightarrow> (Inr r, w)
            | None \<Rightarrow>
                (let r = empty_repo (init_default_branch e)
                 in (Inr r, w\<lparr>repos := (repos w)(repo_path \<mapsto> r)\<rparr>))))"

text \<open>
  \<open>init_local_repo\<close> (line 19).  The inner \<open>try\<close> swallows a failing deletion of the old
  \<open>origin\<close>; the value returned is the repository handle.
\<close>

definition init_local_repo :: "env \<Rightarrow> string \<Rightarrow> world \<Rightarrow> (exn + repo) \<times> world" where
  "init_local_repo e repo_path w =
     (case makedirs e w repo_path of
        (Inl ex, w0) \<Rightarrow> (Inl ex, w0)
      | (Inr _, w0) \<Rightarrow>
          (case repo_init e repo_path w0 of
             (Inl ex, w1) \<Rightarrow> (Inl ex, w1)
           | (Inr r, w1) \<Rightarrow>
               (case username e of
                  None \<Rightarrow> (Inr r, w1)
                | Some github_username \<Rightarrow>
                    if github_username = [] then (Inr r, w1)
                    else
                      (let repo_name = basename repo_path;
                           origin_url = ''https://github.com/'' @ github_username @ ''/''
                                          @ repo_name @ ''.git'';
                           r1 = (if ''origin'' \<in> set (remote_names r)
                                 then snd (git e (RemoteRemove ''origin'') r)
                                 else r)
                       in (case git e (RemoteAdd ''origin'' origin_url) r1 of
                             (Inl ex, r2) \<Rightarrow> (Inl ex, w1\<lparr>repos := (repos w1)(repo_path \<mapsto> r2)\<rparr>)
                           | (Inr _, r2) \<Rightarrow> (Inr r2, w1\<lparr>repos := (repos w1)(repo_path \<mapsto> r2)\<rparr>))))))"

subsection \<open>Branch manager\<close>

text \<open>
  The module defines \<open>ensure_main_branch\<close> twice.  The definition at line 66 is replaced,
  when the module is loaded, by the definition at line 214, which is the function the
  name denotes afterwards.
\<close>

text \<open>The definition at line 66, which the later one shadows.\<close>

definition ensure_main_branch_shadowed :: "env \<Rightarrow> string \<Rightarrow> world \<Rightarrow> (exn + bool) \<times> world" where
  "ensure_main_branch_shadowed e repo_path w =
     with_repo repo_path w (\<lambda>r.
       case (if ''main'' \<notin> set (branch_names r)
             then (if ''master'' \<in> set (branch_names r)
                   then git e (BranchMove ''master'' ''main'') r
                   else (case (if heads r = []
                               then git e (CommitAllowEmpty ''Initial commit'') r
                               else (Inr (), r)) of
                           (Inl ex, r1) \<Rightarrow> (Inl ex, r1)
                         | (Inr _, r1) \<Rightarrow> git e (CheckoutNew ''main'') r1))
             else (Inr (), r)) of
         (Inl ex, r2) \<Rightarrow> (Inl ex, r2)
       | (Inr _, r2) \<Rightarrow>
           if ''origin'' \<in> set (remote_names r2)
           then (case git e (PushSetUpstream ''origin'' ''main'') r2 of
                   (Inl GitCommandError, r3) \<Rightarrow> (Inr True, r3)
                 | (Inl ex, r3) \<Rightarrow> (Inl ex, r3)
                 | (Inr _, r3) \<Rightarrow> (Inr True, r3))
           else (Inr True, r2))"

text \<open>The definition at line 214: the function \<open>ensure_main_branch\<close> of the loaded module.\<close>

definition ensure_main_branch :: "env \<Rightarrow> string \<Rightarrow> world \<Rightarrow> (exn + bool) \<times> world" where
  "ensure_main_branch e repo_path w =
     with_repo repo_path w (\<lambda>r.
       case (if ''main'' \<notin> set (branch_names r)
             then git e (CheckoutNew ''main'') r
             else (Inr (), r)) of
         (Inl ex, r1) \<Rightarrow> (Inl ex, r1)
       | (Inr _, r1) \<Rightarrow>
           if ''origin'' \<in> set (remote_names r1) \<and> remote_ref_known e r1 ''origin/main''
           then (case git e (PushSetUpstream ''origin'' ''main'') r1 of
                   (Inl ex, r2) \<Rightarrow> (Inl ex, r2)
                 | (Inr _, r2) \<Rightarrow> (Inr True, r2))
           else (Inr True, r1))"

subsection \<open>Committer\<close>

definition add_and_commit :: "env \<Rightarrow> string \<Rightarrow> string \<Rightarrow> world \<Rightarrow> (exn + bool) \<times> world" where
  "add_and_commit e repo_path commit_message w =
     with_repo repo_path w (\<lambda>r.
       if \<not> is_dirty e r then (Inr False, r)
       else (case git e AddAll r of
               (Inl ex, r1) \<Rightarrow> (Inl ex, r1)
             | (Inr _, r1) \<Rightarrow>
                 (case git e (IndexCommit commit_message) r1 of
                    (Inl ex, r2) \<Rightarrow> (Inl ex, r2)
                  | (Inr _, r2) \<Rightarrow> (Inr True, r2))))"

subsection \<open>Merge coordinator\<close>

text \<open>
  \<open>repo.active_branch\<close> raises \<open>TypeError\<close> on a detached \<open>HEAD\<close>.  Only a
  \<open>GitCommandError\<close> of the merge is handled; the handler's own \<open>merge --abort\<close> is not
  guarded, so its failure leaves the function through the outer \<open>except\<close>, which re-raises.
\<close>

definition merge_branch ::
  "env \<Rightarrow> string \<Rightarrow> string \<Rightarrow> string \<Rightarrow> world \<Rightarrow> (exn + bool) \<times> world" where
  "merge_branch e repo_path source_branch target_branch w =
     with_repo repo_path w (\<lambda>r.
       if source_branch \<notin> set (branch_names r)
       then (Inl (ValueError (''Source branch '' @ quoted source_branch @ '' does not exist!'')), r)
       else if target_branch \<notin> set (branch_names r)
       then (Inl (ValueError (''Target branch '' @ quoted target_branch @ '' does not exist!'')), r)
       else
         (case HEAD r of
            Detached _ \<Rightarrow> (Inl TypeError, r)
          | Branch current_branch \<Rightarrow>
              (case git e (Checkout target_branch) r of
                 (Inl ex, r1) \<Rightarrow> (Inl ex, r1)
               | (Inr _, r1) \<Rightarrow>
                   (case (case git e (Merge source_branch) r1 of
                            (Inr _, r2) \<Rightarrow> (Inr True, r2)
                          | (Inl GitCommandError, r2) \<Rightarrow>
                              (case git e MergeAbort r2 of
                                 (Inl ex, r3) \<Rightarrow> (Inl ex, r3)
                               | (Inr _, r3) \<Rightarrow> (Inr False, r3))
                          | (Inl ex, r2) \<Rightarrow> (Inl ex, r2)) of
                      (Inl ex, r3) \<Rightarrow> (Inl ex, r3)
                    | (Inr success, r3) \<Rightarrow>
                        if current_branch \<noteq> target_branch
                        then (case git e (Checkout current_branch) r3 of
                                (Inl ex, r4) \<Rightarrow> (Inl ex, r4)
                              | (Inr _, r4) \<Rightarrow> (Inr success, r4))
                        else (Inr success, r3)))))"

subsection \<open>Project scaffolding: ignore files\<close>

text \<open>
  A triple-quoted template: a newline, then every line followed by a newline.
\<close>

definition text_block :: "string list \<Rightarrow> string" where
  "text_block ls = ''\<newline>'' @ concat (map (\<lambda>l. l @ ''\<newline>'') ls)"

definition GITIGNORE_TEMPLATES :: "(string \<times> string) list" where
  "GITIGNORE_TEMPLATES =
     [(''python'', text_block
         [''# Byte-compiled / optimized / DLL files'',
          ''__pycache__/'',
          ''*.py[cod]'',
          ''*$py.class'',
          [],
          ''# Virtual environment'',
          ''venv/'',
          ''env/'',
          ''*.egg-info/'',
          ''.Python'',
          ''pip-log.txt'',
          ''pip-delete-this-directory.txt'',
          [],
          ''# IDE settings'',
          ''.vscode/'',
          ''.idea/'',
          ''*.swp'']),
      (''node'', text_block
         [''# Node.js dependencies'',
          ''node_modules/'',
          ''npm-debug.log'',
          ''yarn-error.log'']),
      (''rust'', text_block
         [''# Rust specific'',
          ''/target/'',
          ''**/*.rs.bk'',
          ''Cargo.lock'']),
      (''general'', text_block
         [''# Logs'',
          ''logs'',
          ''*.log'',
          ''npm-debug.log*'',
          ''yarn-debug.log*'',
          ''yarn-error.log*'',
          [],
          ''# OS files'',
          ''.DS_Store'',
          ''Thumbs.db''])]"

text \<open>\<open>GITIGNORE_TEMPLATES.get(ptype, GITIGNORE_TEMPLATES["general"])\<close>.\<close>

definition template_get :: "string \<Rightarrow> string" where
  "template_get ptype =
     (case map_of GITIGNORE_TEMPLATES ptype of
        Some t \<Rightarrow> t
      | None \<Rightarrow> (case map_of GITIGNORE_TEMPLATES ''general'' of Some t \<Rightarrow> t | None \<Rightarrow> []))"

text \<open>
  The inner \<open>try\<close> that stages and commits \<open>.gitignore\<close>: whatever it raises is logged
  and swallowed, what it did before raising stays.
\<close>

definition commit_gitignore :: "env \<Rightarrow> string \<Rightarrow> string \<Rightarrow> world \<Rightarrow> world" where
  "commit_gitignore e repo_path m w =
     snd (with_repo repo_path w (\<lambda>r.
            case git e (AddPath ''.gitignore'') r of
              (Inl ex, r1) \<Rightarrow> (Inl ex, r1)
            | (Inr _, r1) \<Rightarrow> git e (IndexCommit m) r1))"

definition generate_gitignore :: "env \<Rightarrow> string \<Rightarrow> world \<Rightarrow> (exn + string) \<times> world" where
  "generate_gitignore e repo_path w =
     (let gitignore_path = path_join repo_path ''.gitignore''
      in case detect_project_type e repo_path of
           Inl ex \<Rightarrow> (Inl ex, w)
         | Inr project_types \<Rightarrow>
             (let gitignore_content = str_join ''\<newline>'' (map template_get project_types)
              in case write_text e w gitignore_path (strip gitignore_content) of
                   (Inl ex, w1) \<Rightarrow> (Inl ex, w1)
                 | (Inr _, w1) \<Rightarrow>
                     (Inr gitignore_path,
                      commit_gitignore e repo_path
                        (''Add .gitignore for '' @ str_join '', '' project_types @ '' project'')
                        w1)))"

text \<open>
  The auto-detection of \<open>download_github_gitignore\<close>: \<open>detected_types[0].capitalize()\<close>,
  where indexing an empty list raises \<open>IndexError\<close>.
\<close>

definition auto_detected_type :: "env \<Rightarrow> string \<Rightarrow> exn + string" where
  "auto_detected_type e repo_path =
     (case detect_project_type e repo_path of
        Inl ex \<Rightarrow> Inl ex
      | Inr detected_types \<Rightarrow>
          (case detected_types of
             [] \<Rightarrow> Inl IndexError
           | t # _ \<Rightarrow> Inr (capitalize t)))"

text \<open>The body of the \<open>try\<close> of \<open>download_github_gitignore\<close>.\<close>

definition download_body ::
  "env \<Rightarrow> string \<Rightarrow> string option \<Rightarrow> world \<Rightarrow> (exn + string) \<times> world" where
  "download_body e repo_path project_type w =
     (case (case project_type of
              None \<Rightarrow> auto_detected_type e repo_path
            | Some t \<Rightarrow> Inr t) of
        Inl ex \<Rightarrow> (Inl ex, w)
      | Inr project_type \<Rightarrow>
          (let gitignore_url = ''https://raw.githubusercontent.com/github/gitignore/main/''
                                 @ project_type @ ''.gitignore''
           in case http_get e gitignore_url of
                TransportError \<Rightarrow> (Inl RequestException, w)
              | Response status_code body \<Rightarrow>
                  if status_code = 200
                  then (let gitignore_path = path_join repo_path ''.gitignore''
                        in case write_text e w gitignore_path body of
                             (Inl ex, w1) \<Rightarrow> (Inl ex, w1)
                           | (Inr _, w1) \<Rightarrow>
                               (Inr gitignore_path,
                                commit_gitignore e repo_path
                                  (''Add GitHub'' @ [CHR 0x27] @ ''s '' @ project_type
                                     @ '' .gitignore template'')
                                  w1))
                  else generate_gitignore e repo_path w))"

text \<open>\<open>except Exception\<close>: whatever the body raises, fall back to the local template.\<close>

definition download_github_gitignore ::
  "env \<Rightarrow> string \<Rightarrow> string option \<Rightarrow> world \<Rightarrow> (exn + string) \<times> world" where
  "download_github_gitignore e repo_path project_type w =
     (case download_body e repo_path project_type w of
        (Inl ex, w1) \<Rightarrow> generate_gitignore e repo_path w1
      | (Inr p, w1) \<Rightarrow> (Inr p, w1))"

subsection \<open>Batch file writes\<close>

text \<open>
  The entries reach \<open>add_multiple_files\<close> as dictionaries that carry both keys
  \<open>'path'\<close> and \<open>'content'\<close> (the route layer builds them so): an entry is a pair.
\<close>

record batch_result =
  success :: bool
  message :: string
  created_files :: "string list"
  errors :: "string list"

text \<open>
  The body of the inner \<open>try\<close>, for one entry.  What it did before it raised stays:
  the directories created, the file truncated.
\<close>

definition write_entry ::
  "env \<Rightarrow> string \<Rightarrow> world \<Rightarrow> string \<Rightarrow> string \<Rightarrow> (exn + unit) \<times> world" where
  "write_entry e repo_path w file_path content =
     (let full_path = path_join repo_path file_path
      in case makedirs e w (dirname full_path) of
           (Inl ex, w1) \<Rightarrow> (Inl ex, w1)
         | (Inr _, w1) \<Rightarrow> write_text e w1 full_path content)"

text \<open>The \<open>for\<close> loop, with the two lists it appends to.\<close>

fun add_files_loop ::
  "env \<Rightarrow> string \<Rightarrow> (string \<times> string) list \<Rightarrow> world \<times> string list \<times> string list
     \<Rightarrow> world \<times> string list \<times> string list" where
  "add_files_loop e repo_path [] (w, created, errs) = (w, created, errs)"
| "add_files_loop e repo_path ((file_path, content) # rest) (w, created, errs) =
     (case write_entry e repo_path w file_path content of
        (Inr _, w1) \<Rightarrow> add_files_loop e repo_path rest (w1, created @ [file_path], errs)
      | (Inl ex, w1) \<Rightarrow>
          add_files_loop e repo_path rest
            (w1, created,
             errs @ [''Failed to create file '' @ quoted file_path @ '': '' @ str_exn ex]))"

definition add_multiple_files ::
  "env \<Rightarrow> string \<Rightarrow> (string \<times> string) list \<Rightarrow> world \<Rightarrow> (exn + batch_result) \<times> world" where
  "add_multiple_files e repo_path files w =
     (case add_files_loop e repo_path files (w, [], []) of
        (w', created, errs) \<Rightarrow>
          (Inr \<lparr>success = (length errs = 0),
                message = ''Created '' @ str_nat (length created) @ '' files, ''
                            @ str_nat (length errs) @ '' errors'',
                created_files = created,
                errors = errs\<rparr>,
           w'))"

subsection \<open>Example environments and repositories\<close>

text \<open>
  An environment in which every tool works: the account is \<open>octocat\<close>, three
  directories are known, the template source is unreachable, the working tree is
  clean, and merging \<open>feature\<close> conflicts.
\<close>

definition example_env :: env where
  "example_env =
     \<lparr>username = Some ''octocat'',
      init_default_branch = ''master'',
      init_fails = (\<lambda>_. False),
      dir_status = (\<lambda>p. if p = ''/work/app'' then Listing [''package.json'']
                         else if p = ''/work/empty'' then Listing []
                         else if p = ''/work/locked'' then Unlistable ''Permission denied''
                         else Missing),
      set_rank = length,
      mkdir_fault = (\<lambda>_. None),
      open_fault = (\<lambda>p. if p = ''/work/app/ro/b.txt'' then Some ''Permission denied'' else None),
      write_fault = (\<lambda>_. None),
      http_get = (\<lambda>_. TransportError),
      is_dirty = (\<lambda>_. False),
      remote_ref_known = (\<lambda>_ _. True),
      git_fails = (\<lambda>_ _. False),
      merge_outcome = (\<lambda>_ _. Conflict)\<rparr>"

text \<open>A repository with the branches \<open>main\<close> and \<open>feature\<close>, on \<open>feature\<close>, with an \<open>origin\<close>.\<close>

definition example_repo :: repo where
  "example_repo =
     \<lparr>commits = [\<lparr>c_message = ''Initial commit'', c_parents = []\<rparr>,
                 \<lparr>c_message = ''Edit x on main'', c_parents = [0]\<rparr>,
                 \<lparr>c_message = ''Edit x on feature'', c_parents = [0]\<rparr>],
      heads = [(''main'', 1), (''feature'', 2)],
      HEAD = Branch ''feature'',
      remotes = [(''origin'', ''https://github.com/octocat/app.git'')],
      upstream = [],
      merging = False,
      journal = []\<rparr>"

definition example_world :: world where
  "example_world = \<lparr>disk = Map.empty, dirs = {}, repos = [''/work/app'' \<mapsto> example_repo]\<rparr>"

text \<open>A repository whose only branch is \<open>master\<close>, without remotes.\<close>

definition legacy_repo :: repo where
  "legacy_repo =
     \<lparr>commits = [\<lparr>c_message = ''Initial commit'', c_parents = []\<rparr>],
      heads = [(''master'', 0)],
      HEAD = Branch ''master'',
      remotes = [],
      upstream = [],
      merging = False,
      journal = []\<rparr>"

definition legacy_world :: world where
  "legacy_world = \<lparr>disk = Map.empty, dirs = {}, repos = [''/work/legacy'' \<mapsto> legacy_repo]\<rparr>"

text \<open>
  Variants: the merge is refused before it starts; the push is the one command that
  fails; the working tree has changes; a world without any repository.
\<close>

definition refusing_env :: env where
  "refusing_env = example_env\<lparr>merge_outcome := (\<lambda>_ _. Refused)\<rparr>"

definition offline_env :: env where
  "offline_env = example_env\<lparr>git_fails := (\<lambda>c _. c = PushSetUpstream ''origin'' ''main'')\<rparr>"

definition dirty_env :: env where
  "dirty_env = example_env\<lparr>is_dirty := (\<lambda>_. True)\<rparr>"

definition fresh_world :: world where
  "fresh_world = \<lparr>disk = Map.empty, dirs = {}, repos = Map.empty\<rparr>"

section \<open>Properties\<close>

subsection \<open>Helper facts\<close>

lemma store_same: "repos w p = Some r \<Longrightarrow> w\<lparr>repos := (repos w)(p \<mapsto> r)\<rparr> = w"
  by (simp add: map_upd_triv)

lemmas example_defs =
  example_env_def example_world_def example_repo_def legacy_world_def legacy_repo_def
  dirty_env_def fresh_world_def refusing_env_def offline_env_def

lemmas git_defs = git_def branch_names_def remote_names_def tip_def set_tip_def new_commit_def

lemma git_Checkout_ok:
  assumes "git e (Checkout b) r = (Inr u, r1)"
  shows "r1 = r\<lparr>HEAD := Branch b, journal := journal r @ [Checkout b]\<rparr>"
  using assms by (auto simp: git_def split: if_splits)

lemma git_Merge_raises:
  assumes "git e (Merge s) r1 = (Inl ex, r2)"
  shows "heads r2 = heads r1 \<and> commits r2 = commits r1 \<and> HEAD r2 = HEAD r1
         \<and> journal r2 = journal r1 @ [Merge s]"
  using assms
  by (auto simp: git_def split: if_splits option.splits merge_result.splits)

lemma git_MergeAbort_ok:
  assumes "git e MergeAbort r2 = (Inr u, r3)"
  shows "r3 = r2\<lparr>merging := False, journal := journal r2 @ [MergeAbort]\<rparr>"
  using assms by (auto simp: git_def split: if_splits)

lemma git_RemoteRemove_keeps:
  "commits (snd (git e (RemoteRemove n) r)) = commits r \<and>
   heads (snd (git e (RemoteRemove n) r)) = heads r \<and>
   HEAD (snd (git e (RemoteRemove n) r)) = HEAD r"
  by (simp add: git_def)

lemma git_RemoteAdd_ok:
  assumes "git e (RemoteAdd n url) r = (Inr u, r')"
  shows "n \<notin> set (remote_names r) \<and>
         r' = r\<lparr>remotes := remotes r @ [(n, url)], journal := journal r @ [RemoteAdd n url]\<rparr>"
  using assms by (auto simp: git_def split: if_splits)

lemma filter_absent: "n \<notin> fst ` set xs \<Longrightarrow> filter (\<lambda>(n', _). n' = n) xs = []"
  by (induction xs) auto

lemma mkdir_chain_repos: "repos (snd (mkdir_chain e ds w)) = repos w"
  by (induction ds arbitrary: w) (auto split: list.splits option.splits)

lemma makedirs_repos: "repos (snd (makedirs e w d)) = repos w"
  by (simp add: makedirs_def mkdir_chain_repos)

lemma init_local_repo_works:
  assumes user: "username e = Some u" "u \<noteq> []"
    and dir: "fst (makedirs e w p) = Inr ()"
    and ini: "\<not> init_fails e p"
    and tool: "\<forall>c r. \<not> git_fails e c r"
  shows "\<exists>h w'. init_local_repo e p w = (Inr h, w') \<and> repos w' p = Some h \<and>
           filter (\<lambda>(n, _). n = ''origin'') (remotes h)
             = [(''origin'', ''https://github.com/'' @ u @ ''/'' @ basename p @ ''.git'')] \<and>
           (\<forall>r. repos w p = Some r \<longrightarrow>
                  commits h = commits r \<and> heads h = heads r \<and> HEAD h = HEAD r)"
proof -
  let ?url = "''https://github.com/'' @ u @ ''/'' @ basename p @ ''.git''"
  obtain w0 where mk: "makedirs e w p = (Inr (), w0)"
    using dir by (cases "makedirs e w p") auto
  then have same: "repos w0 = repos w"
    using makedirs_repos [of e w p] by simp
  have "\<exists>r0 w1. repo_init e p w0 = (Inr r0, w1) \<and> (\<forall>r. repos w0 p = Some r \<longrightarrow> r0 = r)"
    using ini by (cases "repos w0 p") (simp_all add: repo_init_def Let_def)
  then obtain r0 w1 where rin: "repo_init e p w0 = (Inr r0, w1)"
    and old: "\<forall>r. repos w0 p = Some r \<longrightarrow> r0 = r" by blast
  define r1 where "r1 = (if ''origin'' \<in> set (remote_names r0)
                         then snd (git e (RemoteRemove ''origin'') r0) else r0)"
  have absent: "''origin'' \<notin> set (remote_names r1)"
    using tool by (auto simp: r1_def git_def remote_names_def)
  have keep1: "commits r1 = commits r0 \<and> heads r1 = heads r0 \<and> HEAD r1 = HEAD r0"
    unfolding r1_def using git_RemoteRemove_keeps by simp
  obtain h where add: "git e (RemoteAdd ''origin'' ?url) r1 = (Inr (), h)"
    using absent tool by (simp add: git_def)
  then have h: "h = r1\<lparr>remotes := remotes r1 @ [(''origin'', ?url)],
                        journal := journal r1 @ [RemoteAdd ''origin'' ?url]\<rparr>"
    using git_RemoteAdd_ok by blast
  have run: "init_local_repo e p w = (Inr h, w1\<lparr>repos := (repos w1)(p \<mapsto> h)\<rparr>)"
    using mk rin user add unfolding init_local_repo_def Let_def r1_def by simp
  have one: "filter (\<lambda>(n, _). n = ''origin'') (remotes h) = [(''origin'', ?url)]"
    using absent h by (simp add: filter_absent remote_names_def)
  from run one old same keep1 h show ?thesis by auto
qed

lemma generate_raise_again:
  assumes "generate_gitignore e p w = (Inl ex, w1)"
  shows "generate_gitignore e p w1 = (Inl ex, w1)"
proof (cases "detect_project_type e p")
  case (Inl ex')
  with assms show ?thesis by (simp add: generate_gitignore_def Let_def)
next
  case (Inr ts)
  let ?gp = "path_join p ''.gitignore''"
  let ?c = "strip (str_join ''\<newline>'' (map template_get ts))"
  from assms Inr have wt: "write_text e w ?gp ?c = (Inl ex, w1)"
    by (auto simp: generate_gitignore_def Let_def split: sum.splits prod.splits)
  have "write_text e w1 ?gp ?c = (Inl ex, w1)"
    using wt by (auto simp: write_text_def split: if_splits option.splits prod.splits)
  with Inr show ?thesis by (simp add: generate_gitignore_def Let_def)
qed

lemma download_body_http_failure:
  assumes "\<forall>url body. http_get e url \<noteq> Response 200 body"
  shows "download_body e p t w = generate_gitignore e p w \<or> (\<exists>ex. download_body e p t w = (Inl ex, w))"
proof (cases "case t of None \<Rightarrow> auto_detected_type e p | Some t' \<Rightarrow> Inr t'")
  case (Inl ex)
  then show ?thesis by (simp add: download_body_def)
next
  case (Inr ty)
  show ?thesis
  proof (cases "http_get e (''https://raw.githubusercontent.com/github/gitignore/main/'' @ ty @ ''.gitignore'')")
    case (Response code body)
    with assms have "code \<noteq> 200" by auto
    with Inr Response show ?thesis by (simp add: download_body_def)
  next
    case TransportError
    with Inr show ?thesis by (simp add: download_body_def)
  qed
qed

lemma add_files_loop_acc:
  "add_files_loop e p fs (w, c, er) =
     (case add_files_loop e p fs (w, [], []) of (w', c', er') \<Rightarrow> (w', c @ c', er @ er'))"
proof (induction fs arbitrary: w c er)
  case Nil
  show ?case by simp
next
  case (Cons f fs)
  obtain fp ct where f: "f = (fp, ct)" by (cases f)
  obtain res w1 where we: "write_entry e p w fp ct = (res, w1)" by (cases "write_entry e p w fp ct")
  show ?case
  proof (cases res)
    case (Inl ex)
    with f we show ?thesis
      using Cons.IH [of w1 c "er @ [''Failed to create file '' @ quoted fp @ '': '' @ str_exn ex]"]
            Cons.IH [of w1 "[]" "[''Failed to create file '' @ quoted fp @ '': '' @ str_exn ex]"]
      by (simp split: prod.splits)
  next
    case (Inr u)
    with f we show ?thesis
      using Cons.IH [of w1 "c @ [fp]" er] Cons.IH [of w1 "[fp]" "[]"]
      by (simp split: prod.splits)
  qed
qed

lemma add_files_loop_append:
  "add_files_loop e p (xs @ ys) acc = add_files_loop e p ys (add_files_loop e p xs acc)"
proof (induction xs arbitrary: acc)
  case Nil
  show ?case by (cases acc) auto
next
  case (Cons x xs)
  obtain w c er where acc: "acc = (w, c, er)" by (cases acc)
  obtain fp ct where x: "x = (fp, ct)" by (cases x)
  show ?case using Cons.IH acc x by (simp split: prod.splits sum.splits)
qed

lemma add_files_loop_count:
  "add_files_loop e p fs (w, [], []) = (w', c, er) \<Longrightarrow>
     length c + length er = length fs \<and> subseq c (map fst fs)"
proof (induction fs arbitrary: w w' c er)
  case Nil
  then show ?case by simp
next
  case (Cons f fs)
  obtain fp ct where f: "f = (fp, ct)" by (cases f)
  obtain res w1 where we: "write_entry e p w fp ct = (res, w1)" by (cases "write_entry e p w fp ct")
  obtain w2 c2 er2 where rest: "add_files_loop e p fs (w1, [], []) = (w2, c2, er2)"
    by (cases "add_files_loop e p fs (w1, [], [])")
  from Cons.IH [OF rest] have ih: "length c2 + length er2 = length fs \<and> subseq c2 (map fst fs)" .
  show ?case
  proof (cases res)
    case (Inl ex)
    with f we rest Cons.prems
    have "c = c2 \<and> er = (''Failed to create file '' @ quoted fp @ '': '' @ str_exn ex) # er2"
      using add_files_loop_acc [of e p fs w1 "[]" "[''Failed to create file '' @ quoted fp @ '': '' @ str_exn ex]"]
      by simp
    with ih f show ?thesis by auto
  next
    case (Inr u)
    with f we rest Cons.prems
    have "c = fp # c2 \<and> er = er2"
      using add_files_loop_acc [of e p fs w1 "[fp]" "[]"] by simp
    with ih f show ?thesis by auto
  qed
qed


lemma add_files_loop_fail:
  assumes xs: "add_files_loop e p xs (w, [], []) = (w1, c1, e1)"
    and bad: "fst (write_entry e p w1 fp ct) = Inl ex"
  shows "\<exists>w2 c2 e2. add_files_loop e p (xs @ (fp, ct) # ys) (w, [], [])
                       = (w2, c1 @ c2,
                          e1 @ (''Failed to create file '' @ quoted fp @ '': '' @ str_exn ex) # e2)
                     \<and> length c2 + length e2 = length ys"
proof -
  obtain w1' where we: "write_entry e p w1 fp ct = (Inl ex, w1')"
    using bad by (cases "write_entry e p w1 fp ct") auto
  obtain w2 c2 e2 where ys: "add_files_loop e p ys (w1', [], []) = (w2, c2, e2)"
    by (cases "add_files_loop e p ys (w1', [], [])")
  have "add_files_loop e p (xs @ (fp, ct) # ys) (w, [], [])
          = add_files_loop e p ys
              (w1', c1, e1 @ [''Failed to create file '' @ quoted fp @ '': '' @ str_exn ex])"
    using xs we by (simp add: add_files_loop_append)
  with ys add_files_loop_count [OF ys] show ?thesis
    using add_files_loop_acc
            [of e p ys w1' c1 "e1 @ [''Failed to create file '' @ quoted fp @ '': '' @ str_exn ex]"]
    by simp
qed

lemma add_files_loop_keep:
  assumes xs: "add_files_loop e p xs (w, [], []) = (w1, c1, e1)"
    and good: "fst (write_entry e p w1 fp ct) = Inr ()"
  shows "\<exists>w2 c2 e2. add_files_loop e p (xs @ (fp, ct) # ys) (w, [], [])
                       = (w2, c1 @ fp # c2, e1 @ e2)
                     \<and> length c2 + length e2 = length ys"
proof -
  obtain w1' where we: "write_entry e p w1 fp ct = (Inr (), w1')"
    using good by (cases "write_entry e p w1 fp ct") auto
  obtain w2 c2 e2 where ys: "add_files_loop e p ys (w1', [], []) = (w2, c2, e2)"
    by (cases "add_files_loop e p ys (w1', [], [])")
  have "add_files_loop e p (xs @ (fp, ct) # ys) (w, [], [])
          = add_files_loop e p ys (w1', c1 @ [fp], e1)"
    using xs we by (simp add: add_files_loop_append)
  with ys add_files_loop_count [OF ys] show ?thesis
    using add_files_loop_acc [of e p ys w1' "c1 @ [fp]" e1] by simp
qed

lemma CheckoutNew_keeps_branches:
  "set (branch_names r) \<subseteq> set (branch_names (snd (git e (CheckoutNew b) r)))"
  by (auto simp: git_def branch_names_def split: option.splits)

lemma PushSetUpstream_keeps_branches:
  "branch_names (snd (git e (PushSetUpstream rm b) r)) = branch_names r"
  by (auto simp: git_def branch_names_def)

lemma set_to_list_nonempty: "xs \<noteq> [] \<Longrightarrow> set_to_list e xs \<noteq> []"
proof -
  assume "xs \<noteq> []"
  then have "set (sort_key (set_rank e) (remdups xs)) \<noteq> {}" by simp
  then show ?thesis unfolding set_to_list_def by fastforce
qed

lemma set_to_list_single: "set_to_list e [x] = [x]"
  by (simp add: set_to_list_def)

lemma detect_body_nonempty: "detect_body e p = Inr ts \<Longrightarrow> ts \<noteq> []"
  unfolding detect_body_def
  by (auto simp: Let_def set_to_list_nonempty split: dir_status.splits if_splits)

subsection \<open>Project type detection\<close>

text \<open>
  C8.  \<open>detect_project_type\<close> returns exactly \<open>["node"]\<close> for a directory whose listing
  holds only \<open>package.json\<close>, exactly \<open>["general"]\<close> for an empty directory, and
  \<open>["general"]\<close>, without raising, for a path that does not exist.
\<close>

theorem detect_project_type_examples:
  assumes "dir_status e p1 = Listing [''package.json'']"
    and "dir_status e p2 = Listing []"
    and "dir_status e p3 = Missing"
  shows "detect_project_type e p1 = Inr [''node''] \<and>
         detect_project_type e p2 = Inr [''general''] \<and>
         detect_project_type e p3 = Inr [''general'']"
  using assms
  by (simp add: detect_project_type_def detect_body_def set_to_list_single endswith_def)

theorem detect_project_type_examples_witness:
  "detect_project_type example_env ''/work/app'' = Inr [''node''] \<and>
   detect_project_type example_env ''/work/empty'' = Inr [''general''] \<and>
   detect_project_type example_env ''/work/missing'' = Inr [''general'']"
proof -
  have a: "dir_status example_env ''/work/app'' = Listing [''package.json'']"
    by (simp add: example_env_def)
  have b: "dir_status example_env ''/work/empty'' = Listing []"
    by (simp add: example_env_def)
  have c: "dir_status example_env ''/work/missing'' = Missing"
    by (simp add: example_env_def)
  show ?thesis by (rule detect_project_type_examples [OF a b c])
qed

text \<open>
  C10.  \<open>detect_project_type\<close> never raises and never returns an empty list, whatever
  the path and whatever the directory answers; when listing the directory fails it
  returns exactly \<open>["general"]\<close>.  Hence \<open>detected_types[0]\<close> in the auto-detection of
  \<open>download_github_gitignore\<close> never raises \<open>IndexError\<close>.
\<close>

theorem detect_project_type_total:
  "(\<exists>t ts. detect_project_type e p = Inr (t # ts)) \<and>
   (\<exists>t. auto_detected_type e p = Inr t) \<and>
   (\<forall>m. dir_status e p = Unlistable m \<longrightarrow> detect_project_type e p = Inr [''general''])"
proof -
  have ne: "\<exists>t ts. detect_project_type e p = Inr (t # ts)"
  proof (cases "detect_body e p")
    case (Inl ex)
    then show ?thesis by (simp add: detect_project_type_def)
  next
    case (Inr ts)
    then have "ts \<noteq> []" by (rule detect_body_nonempty)
    then obtain t ts' where "ts = t # ts'" by (cases ts) auto
    with Inr show ?thesis by (simp add: detect_project_type_def)
  qed
  then obtain t ts where d: "detect_project_type e p = Inr (t # ts)" by blast
  have auto_ok: "\<exists>t. auto_detected_type e p = Inr t"
    using d by (simp add: auto_detected_type_def)
  have fallback:
    "\<forall>m. dir_status e p = Unlistable m \<longrightarrow> detect_project_type e p = Inr [''general'']"
    by (simp add: detect_project_type_def detect_body_def)
  from ne auto_ok fallback show ?thesis by blast
qed

theorem detect_project_type_total_witness:
  "dir_status example_env ''/work/locked'' = Unlistable ''Permission denied'' \<and>
   detect_project_type example_env ''/work/locked'' = Inr [''general'']"
proof -
  have a: "dir_status example_env ''/work/locked'' = Unlistable ''Permission denied''"
    by (simp add: example_env_def)
  from detect_project_type_total [of example_env "''/work/locked''"] a
  show ?thesis by blast
qed

subsection \<open>Merge: validation\<close>

text \<open>
  C4.  When the source or the target branch does not exist locally, \<open>merge_branch\<close>
  raises a \<open>ValueError\<close> whose message names the missing branch (the source when it is
  missing, else the target), and the world is left exactly as it was: no branch is
  checked out, no merge is attempted, no git command is issued at all (the journal is
  part of the state).
\<close>

theorem merge_branch_missing_branch:
  assumes "repos w p = Some r"
    and "src \<notin> set (branch_names r) \<or> tgt \<notin> set (branch_names r)"
  shows "merge_branch e p src tgt w =
           (Inl (ValueError
                  (if src \<notin> set (branch_names r)
                   then ''Source branch '' @ quoted src @ '' does not exist!''
                   else ''Target branch '' @ quoted tgt @ '' does not exist!'')), w)"
  using assms by (auto simp: merge_branch_def with_repo_def store_same)

theorem merge_branch_missing_branch_witness:
  "merge_branch example_env ''/work/app'' ''hotfix'' ''main'' example_world =
     (Inl (ValueError ''Source branch 'hotfix' does not exist!''), example_world)"
proof -
  have a: "repos example_world ''/work/app'' = Some example_repo"
    by (simp add: example_world_def)
  have c: "''hotfix'' \<notin> set (branch_names example_repo)"
    by (simp add: example_repo_def branch_names_def)
  then have b: "''hotfix'' \<notin> set (branch_names example_repo)
                \<or> ''main'' \<notin> set (branch_names example_repo)" ..
  from merge_branch_missing_branch [OF a b, of example_env] c
  show ?thesis by (simp add: quoted_def)
qed

subsection \<open>Commit on a clean working tree\<close>

text \<open>
  C5.  On a repository whose working tree is clean (\<open>is_dirty(untracked_files=True)\<close> is
  false) \<open>add_and_commit\<close> returns \<open>False\<close>, the "nothing to commit" outcome, instead of
  raising, and leaves the world as it was: no commit is created.
\<close>

theorem add_and_commit_clean:
  assumes "repos w p = Some r" and "\<not> is_dirty e r"
  shows "add_and_commit e p m w = (Inr False, w)"
  using assms by (simp add: add_and_commit_def with_repo_def store_same)

theorem add_and_commit_clean_witness:
  "add_and_commit example_env ''/work/app'' ''Update'' example_world = (Inr False, example_world)"
proof -
  have a: "repos example_world ''/work/app'' = Some example_repo"
    by (simp add: example_world_def)
  have b: "\<not> is_dirty example_env example_repo"
    by (simp add: example_env_def)
  show ?thesis by (rule add_and_commit_clean [OF a b])
qed

text \<open>
  The other outcome: on a dirty working tree, when staging and committing do not fail,
  \<open>add_and_commit\<close> returns \<open>True\<close> and the repository has one more commit, with the
  given message.
\<close>

lemma add_and_commit_dirty:
  assumes "repos w p = Some r" and "is_dirty e r"
    and "\<not> git_fails e AddAll r"
    and "\<not> git_fails e (IndexCommit m) (r\<lparr>journal := journal r @ [AddAll]\<rparr>)"
  shows "\<exists>r'. add_and_commit e p m w = (Inr True, w\<lparr>repos := (repos w)(p \<mapsto> r')\<rparr>) \<and>
              length (commits r') = Suc (length (commits r)) \<and>
              c_message (last (commits r')) = m"
  using assms
  by (auto simp: add_and_commit_def with_repo_def git_def new_commit_def set_tip_def
      split: head.splits)

subsection \<open>Merge: a failing merge\<close>

text \<open>
  C1, evaluated where the merge fails without leaving a merge in progress.  Both
  branches exist, \<open>HEAD\<close> is on \<open>feature\<close>, and git refuses the merge before it starts
  (local changes would be overwritten, unrelated histories), raising
  \<open>GitCommandError\<close>.  The handler's \<open>merge --abort\<close> then has nothing to abort and raises
  as well: \<open>merge_branch\<close> raises \<open>GitCommandError\<close> instead of returning \<open>False\<close>, and
  \<open>HEAD\<close> is left on the target \<open>main\<close> instead of being returned to \<open>feature\<close>.
\<close>

theorem merge_branch_refused_raises:
  "repos example_world ''/work/app'' = Some example_repo \<and>
   ''feature'' \<in> set (branch_names example_repo) \<and>
   ''main'' \<in> set (branch_names example_repo) \<and>
   HEAD example_repo = Branch ''feature'' \<and>
   fst (git refusing_env (Merge ''feature'')
         (snd (git refusing_env (Checkout ''main'') example_repo))) = Inl GitCommandError \<and>
   fst (merge_branch refusing_env ''/work/app'' ''feature'' ''main'' example_world)
     = Inl GitCommandError \<and>
   map_option HEAD
     (repos (snd (merge_branch refusing_env ''/work/app'' ''feature'' ''main'' example_world))
        ''/work/app'') = Some (Branch ''main'') \<and>
   map_option journal
     (repos (snd (merge_branch refusing_env ''/work/app'' ''feature'' ''main'' example_world))
        ''/work/app'') = Some [Checkout ''main'', Merge ''feature'', MergeAbort]"
  by (simp add: merge_branch_def with_repo_def example_world_def example_repo_def
      refusing_env_def example_env_def git_def branch_names_def)

text \<open>
  The same on every repository: whenever the merge raises \<open>GitCommandError\<close> and no merge
  is in progress afterwards, \<open>merge_branch\<close> raises \<open>GitCommandError\<close> and leaves \<open>HEAD\<close> on
  the target.
\<close>

lemma merge_branch_abort_failure_raises:
  assumes "repos w p = Some r"
    and "src \<in> set (branch_names r)" and "tgt \<in> set (branch_names r)"
    and "HEAD r = Branch cur"
    and "git e (Checkout tgt) r = (Inr (), r1)"
    and "git e (Merge src) r1 = (Inl GitCommandError, r2)"
    and "\<not> merging r2"
  shows "\<exists>r3. merge_branch e p src tgt w
                 = (Inl GitCommandError, w\<lparr>repos := (repos w)(p \<mapsto> r3)\<rparr>) \<and>
              HEAD r3 = Branch tgt"
proof -
  have r1: "r1 = r\<lparr>HEAD := Branch tgt, journal := journal r @ [Checkout tgt]\<rparr>"
    using assms(5) by (rule git_Checkout_ok)
  have r2: "HEAD r2 = HEAD r1"
    using git_Merge_raises [OF assms(6)] by simp
  have ab: "git e MergeAbort r2 = (Inl GitCommandError, r2\<lparr>journal := journal r2 @ [MergeAbort]\<rparr>)"
    using assms(7) by (simp add: git_def)
  have "merge_branch e p src tgt w
          = (Inl GitCommandError,
             w\<lparr>repos := (repos w)(p \<mapsto> r2\<lparr>journal := journal r2 @ [MergeAbort]\<rparr>)\<rparr>)"
    using assms(1-6) ab by (simp add: merge_branch_def with_repo_def)
  with r1 r2 show ?thesis by auto
qed

text \<open>
  When the failed merge did leave a merge in progress, as a conflict does, the handler
  does what it is written for.  Both branches exist and \<open>HEAD\<close> is on a branch \<open>cur\<close>.  If
  the checkout of the target succeeds, the merge raises \<open>GitCommandError\<close>, the
  \<open>merge --abort\<close> that follows succeeds and the checkout back to \<open>cur\<close>, made when \<open>cur\<close>
  differs from the target, succeeds, then \<open>merge_branch\<close> returns \<open>False\<close> without raising;
  the commits, every branch tip and \<open>HEAD\<close> are what they were and no merge is in
  progress.
\<close>

lemma merge_branch_conflict_aborts:
  assumes repo: "repos w p = Some r"
    and src: "src \<in> set (branch_names r)"
    and tgt: "tgt \<in> set (branch_names r)"
    and cur: "HEAD r = Branch cur"
    and checkout: "git e (Checkout tgt) r = (Inr (), r1)"
    and mg: "git e (Merge src) r1 = (Inl GitCommandError, r2)"
    and ab: "git e MergeAbort r2 = (Inr (), r3)"
    and ret: "r4 = (if cur \<noteq> tgt then snd (git e (Checkout cur) r3) else r3)"
    and ret_ok: "cur \<noteq> tgt \<longrightarrow> fst (git e (Checkout cur) r3) = Inr ()"
  shows "merge_branch e p src tgt w = (Inr False, w\<lparr>repos := (repos w)(p \<mapsto> r4)\<rparr>) \<and>
         commits r4 = commits r \<and> heads r4 = heads r \<and> HEAD r4 = HEAD r \<and> \<not> merging r4 \<and>
         journal r4 = journal r @ [Checkout tgt, Merge src, MergeAbort]
                        @ (if cur \<noteq> tgt then [Checkout cur] else [])"
proof -
  have r1: "r1 = r\<lparr>HEAD := Branch tgt, journal := journal r @ [Checkout tgt]\<rparr>"
    using checkout by (rule git_Checkout_ok)
  have r2: "heads r2 = heads r1 \<and> commits r2 = commits r1 \<and> HEAD r2 = HEAD r1
            \<and> journal r2 = journal r1 @ [Merge src]"
    using mg by (rule git_Merge_raises)
  have r3: "r3 = r2\<lparr>merging := False, journal := journal r2 @ [MergeAbort]\<rparr>"
    using ab by (rule git_MergeAbort_ok)
  show ?thesis
  proof (cases "cur = tgt")
    case True
    with ret have r4: "r4 = r3" by simp
    have run: "merge_branch e p src tgt w = (Inr False, w\<lparr>repos := (repos w)(p \<mapsto> r4)\<rparr>)"
      using repo src tgt cur checkout mg ab True r4
      by (simp add: merge_branch_def with_repo_def)
    from run r1 r2 r3 r4 True cur show ?thesis by simp
  next
    case False
    obtain u r4' where g: "git e (Checkout cur) r3 = (u, r4')" by (cases "git e (Checkout cur) r3")
    with ret_ok False have u: "u = Inr ()" by simp
    from g ret False have r4: "r4 = r4'" by simp
    have r4eq: "r4 = r3\<lparr>HEAD := Branch cur, journal := journal r3 @ [Checkout cur]\<rparr>"
      using g u r4 git_Checkout_ok by blast
    have run: "merge_branch e p src tgt w = (Inr False, w\<lparr>repos := (repos w)(p \<mapsto> r4)\<rparr>)"
      using repo src tgt cur checkout mg ab False g u r4
      by (simp add: merge_branch_def with_repo_def)
    from run r1 r2 r3 r4eq False cur show ?thesis by simp
  qed
qed

lemma merge_branch_conflict_aborts_example:
  "merge_branch example_env ''/work/app'' ''feature'' ''main'' example_world =
     (Inr False,
      example_world\<lparr>repos := (repos example_world)(''/work/app'' \<mapsto>
         example_repo\<lparr>journal := [Checkout ''main'', Merge ''feature'', MergeAbort,
                                   Checkout ''feature'']\<rparr>)\<rparr>)"
proof -
  let ?r1 = "example_repo\<lparr>HEAD := Branch ''main'', journal := [Checkout ''main'']\<rparr>"
  let ?r2 = "?r1\<lparr>merging := True, journal := [Checkout ''main'', Merge ''feature'']\<rparr>"
  let ?r3 = "?r1\<lparr>merging := False, journal := [Checkout ''main'', Merge ''feature'', MergeAbort]\<rparr>"
  let ?r4 = "example_repo\<lparr>journal := [Checkout ''main'', Merge ''feature'', MergeAbort,
                                       Checkout ''feature'']\<rparr>"
  have a: "repos example_world ''/work/app'' = Some example_repo"
    by (simp add: example_world_def)
  have b: "''feature'' \<in> set (branch_names example_repo)"
    by (simp add: example_repo_def branch_names_def)
  have c: "''main'' \<in> set (branch_names example_repo)"
    by (simp add: example_repo_def branch_names_def)
  have d: "HEAD example_repo = Branch ''feature''"
    by (simp add: example_repo_def)
  have s1: "git example_env (Checkout ''main'') example_repo = (Inr (), ?r1)"
    by (simp add: example_defs git_defs)
  have s2: "git example_env (Merge ''feature'') ?r1 = (Inl GitCommandError, ?r2)"
    by (simp add: example_defs git_defs)
  have s3: "git example_env MergeAbort ?r2 = (Inr (), ?r3)"
    by (simp add: example_defs git_defs)
  have s4: "?r4 = (if ''feature'' \<noteq> ''main'' then snd (git example_env (Checkout ''feature'') ?r3) else ?r3)"
    by (simp add: example_defs git_defs)
  have s5: "''feature'' \<noteq> ''main'' \<longrightarrow> fst (git example_env (Checkout ''feature'') ?r3) = Inr ()"
    by (simp add: example_defs git_defs)
  from merge_branch_conflict_aborts [OF a b c d s1 s2 s3 s4 s5]
  show ?thesis by simp
qed

subsection \<open>The default branch\<close>

text \<open>
  C2, evaluated on the function the module exports.  On a repository whose only branch
  is \<open>master\<close>, \<open>ensure_main_branch\<close> (line 214) runs \<open>git checkout -b main\<close>: it returns
  \<open>True\<close> and the repository then has both \<open>master\<close> and \<open>main\<close>; nothing is renamed.
\<close>

theorem ensure_main_branch_keeps_master:
  "fst (ensure_main_branch example_env ''/work/legacy'' legacy_world) = Inr True \<and>
   map_option branch_names (repos (snd (ensure_main_branch example_env ''/work/legacy'' legacy_world)) ''/work/legacy'')
     = Some [''master'', ''main'']"
  by (simp add: ensure_main_branch_def with_repo_def legacy_world_def legacy_repo_def
      example_env_def git_def branch_names_def remote_names_def tip_def)

text \<open>
  On every repository the function of line 214 keeps every branch it finds, so it never
  renames \<open>master\<close>.
\<close>

lemma ensure_main_branch_keeps_every_branch:
  assumes "repos w p = Some r" and "b \<in> set (branch_names r)"
  shows "\<exists>r'. repos (snd (ensure_main_branch e p w)) p = Some r' \<and> b \<in> set (branch_names r')"
proof -
  obtain u r1 where g: "git e (CheckoutNew ''main'') r = (u, r1)"
    by (cases "git e (CheckoutNew ''main'') r")
  then have k1: "b \<in> set (branch_names r1)"
    using CheckoutNew_keeps_branches [of r e "''main''"] assms(2) by auto
  obtain u2 r2 where g2: "git e (PushSetUpstream ''origin'' ''main'') r1 = (u2, r2)"
    by (cases "git e (PushSetUpstream ''origin'' ''main'') r1")
  then have k2: "b \<in> set (branch_names r2)"
    using PushSetUpstream_keeps_branches [of e "''origin''" "''main''" r1] k1 by simp
  obtain u3 r3 where g3: "git e (PushSetUpstream ''origin'' ''main'') r = (u3, r3)"
    by (cases "git e (PushSetUpstream ''origin'' ''main'') r")
  then have k3: "b \<in> set (branch_names r3)"
    using PushSetUpstream_keeps_branches [of e "''origin''" "''main''" r] assms(2) by simp
  show ?thesis
    using assms g g2 g3 k1 k2 k3
    by (auto simp: ensure_main_branch_def with_repo_def split: sum.splits prod.splits)
qed

text \<open>The shadowed definition (line 66) renames \<open>master\<close> on the same input.\<close>

lemma ensure_main_branch_shadowed_renames:
  "fst (ensure_main_branch_shadowed example_env ''/work/legacy'' legacy_world) = Inr True \<and>
   map_option branch_names (repos (snd (ensure_main_branch_shadowed example_env ''/work/legacy'' legacy_world)) ''/work/legacy'')
     = Some [''main'']"
  by (simp add: ensure_main_branch_shadowed_def with_repo_def legacy_world_def legacy_repo_def
      example_env_def git_def branch_names_def remote_names_def tip_def)

text \<open>
  On every repository with \<open>master\<close> and without \<open>main\<close> the shadowed definition renames
  the branch in place: the branch list keeps its order and its commits, and no commit is
  created.
\<close>

lemma ensure_main_branch_shadowed_renames_master:
  assumes "repos w p = Some r" and "''master'' \<in> set (branch_names r)"
    and "''main'' \<notin> set (branch_names r)"
    and "\<not> git_fails e (BranchMove ''master'' ''main'') r"
  shows "\<exists>res r'. ensure_main_branch_shadowed e p w = (res, w\<lparr>repos := (repos w)(p \<mapsto> r')\<rparr>) \<and>
           branch_names r' = map (\<lambda>n. if n = ''master'' then ''main'' else n) (branch_names r) \<and>
           map snd (heads r') = map snd (heads r) \<and> commits r' = commits r"
  using assms
  by (auto simp: ensure_main_branch_shadowed_def with_repo_def git_def branch_names_def
      remote_names_def split: sum.splits prod.splits exn.splits
      intro!: exI)

text \<open>
  C3, evaluated on the function the module exports.  The repository has \<open>main\<close> and a
  remote \<open>origin\<close>, the membership test on \<open>repo.remote().refs\<close> holds and the push that
  sets the upstream fails: \<open>ensure_main_branch\<close> (line 214) raises \<open>GitCommandError\<close>
  instead of returning \<open>True\<close>.
\<close>

theorem ensure_main_branch_push_failure_raises:
  "''origin'' \<in> set (remote_names example_repo) \<and>
   fst (git offline_env (PushSetUpstream ''origin'' ''main'') example_repo) = Inl GitCommandError \<and>
   fst (ensure_main_branch offline_env ''/work/app'' example_world) = Inl GitCommandError"
  by (simp add: ensure_main_branch_def with_repo_def example_world_def example_repo_def
      offline_env_def example_env_def git_def branch_names_def remote_names_def)

text \<open>
  On every repository where the function of line 214 attempts the push, a failure of the
  push is the failure of the call.
\<close>

lemma ensure_main_branch_push_failure_propagates:
  assumes "repos w p = Some r" and "''main'' \<in> set (branch_names r)"
    and "''origin'' \<in> set (remote_names r)" and "remote_ref_known e r ''origin/main''"
    and "fst (git e (PushSetUpstream ''origin'' ''main'') r) = Inl ex"
  shows "fst (ensure_main_branch e p w) = Inl ex"
  using assms
  by (auto simp: ensure_main_branch_def with_repo_def split: sum.splits prod.splits)

text \<open>The shadowed definition (line 66) catches the same failure and returns \<open>True\<close>.\<close>

lemma ensure_main_branch_shadowed_push_failure_logged:
  "fst (ensure_main_branch_shadowed offline_env ''/work/app'' example_world) = Inr True"
  by (simp add: ensure_main_branch_shadowed_def with_repo_def example_world_def example_repo_def
      offline_env_def example_env_def git_def branch_names_def remote_names_def)

subsection \<open>Initializing twice\<close>

text \<open>
  C6.  The initializer is called twice on the same path with the same account \<open>u\<close>
  configured, in environments whose tools work (the directory can be created,
  \<open>git init\<close> and the git commands do not fail).  Whatever happened to the repository
  between the calls (\<open>r\<close> is the repository found at the path by the second call), both
  calls return, after each call the repository at the path has exactly one remote
  named \<open>origin\<close>, whose URL is \<open>https://github.com/u/basename.git\<close>, and the second call
  keeps every commit, every branch and \<open>HEAD\<close> of \<open>r\<close>.
\<close>

theorem init_local_repo_twice:
  assumes user1: "username e1 = Some u" and user2: "username e2 = Some u" and u: "u \<noteq> []"
    and dir1: "fst (makedirs e1 w0 p) = Inr ()" and dir2: "fst (makedirs e2 w1' p) = Inr ()"
    and ini1: "\<not> init_fails e1 p" and ini2: "\<not> init_fails e2 p"
    and tool1: "\<forall>c r. \<not> git_fails e1 c r" and tool2: "\<forall>c r. \<not> git_fails e2 c r"
    and between: "repos w1' p = Some r"
  shows "\<exists>h1 w1 h2 w2.
           init_local_repo e1 p w0 = (Inr h1, w1) \<and> repos w1 p = Some h1 \<and>
           filter (\<lambda>(n, _). n = ''origin'') (remotes h1)
             = [(''origin'', ''https://github.com/'' @ u @ ''/'' @ basename p @ ''.git'')] \<and>
           init_local_repo e2 p w1' = (Inr h2, w2) \<and> repos w2 p = Some h2 \<and>
           filter (\<lambda>(n, _). n = ''origin'') (remotes h2)
             = [(''origin'', ''https://github.com/'' @ u @ ''/'' @ basename p @ ''.git'')] \<and>
           commits h2 = commits r \<and> heads h2 = heads r \<and> HEAD h2 = HEAD r"
proof -
  from init_local_repo_works [OF user1 u dir1 ini1 tool1]
  obtain h1 w1 where a: "init_local_repo e1 p w0 = (Inr h1, w1)" "repos w1 p = Some h1"
    "filter (\<lambda>(n, _). n = ''origin'') (remotes h1)
       = [(''origin'', ''https://github.com/'' @ u @ ''/'' @ basename p @ ''.git'')]"
    by blast
  from init_local_repo_works [OF user2 u dir2 ini2 tool2] between
  obtain h2 w2 where b: "init_local_repo e2 p w1' = (Inr h2, w2)" "repos w2 p = Some h2"
    "filter (\<lambda>(n, _). n = ''origin'') (remotes h2)
       = [(''origin'', ''https://github.com/'' @ u @ ''/'' @ basename p @ ''.git'')]"
    "commits h2 = commits r \<and> heads h2 = heads r \<and> HEAD h2 = HEAD r"
    by blast
  from a b show ?thesis by blast
qed

theorem init_local_repo_twice_witness:
  "\<exists>h1 w1 h2 w2.
     init_local_repo example_env ''/work/new'' fresh_world = (Inr h1, w1) \<and>
     repos w1 ''/work/new'' = Some h1 \<and>
     filter (\<lambda>(n, _). n = ''origin'') (remotes h1)
       = [(''origin'', ''https://github.com/octocat/new.git'')] \<and>
     init_local_repo example_env ''/work/new''
       (snd (add_and_commit dirty_env ''/work/new'' ''Add README''
              (snd (init_local_repo example_env ''/work/new'' fresh_world)))) = (Inr h2, w2) \<and>
     repos w2 ''/work/new'' = Some h2 \<and>
     filter (\<lambda>(n, _). n = ''origin'') (remotes h2)
       = [(''origin'', ''https://github.com/octocat/new.git'')] \<and>
     commits h2 = [\<lparr>c_message = ''Add README'', c_parents = []\<rparr>] \<and>
     heads h2 = [(''master'', 0)] \<and> HEAD h2 = Branch ''master''"
proof -
  let ?h1 = "\<lparr>commits = [], heads = [], HEAD = Branch ''master'',
              remotes = [(''origin'', ''https://github.com/octocat/new.git'')],
              upstream = [], merging = False,
              journal = [RemoteAdd ''origin'' ''https://github.com/octocat/new.git'']\<rparr>"
  let ?r = "?h1\<lparr>commits := [\<lparr>c_message = ''Add README'', c_parents = []\<rparr>],
                 heads := [(''master'', 0)],
                 journal := [RemoteAdd ''origin'' ''https://github.com/octocat/new.git'',
                             AddAll, IndexCommit ''Add README'']\<rparr>"
  let ?w1 = "snd (init_local_repo example_env ''/work/new'' fresh_world)"
  let ?w1' = "snd (add_and_commit dirty_env ''/work/new'' ''Add README'' ?w1)"
  have usr: "username example_env = Some ''octocat''" by (simp add: example_env_def)
  have ne: "''octocat'' \<noteq> []" by simp
  have ini: "\<not> init_fails example_env ''/work/new''" by (simp add: example_env_def)
  have tool: "\<forall>c r. \<not> git_fails example_env c r" by (simp add: example_env_def)
  have chain: "dir_chain ''/work/new'' = [''/work'', ''/work/new'']"
    by (simp add: dir_chain_def components_def startswith_def)
  have dir1: "fst (makedirs example_env fresh_world ''/work/new'') = Inr ()"
    by (simp add: makedirs_def chain example_defs)
  have first: "repos ?w1 ''/work/new'' = Some ?h1"
    by (simp add: init_local_repo_def makedirs_def chain repo_init_def empty_repo_def
        basename_def Let_def example_defs git_defs)
  have dirs1: "dirs ?w1 = {''/work'', ''/work/new''} \<and> disk ?w1 = Map.empty"
    by (simp add: init_local_repo_def makedirs_def chain repo_init_def empty_repo_def
        basename_def Let_def example_defs git_defs insert_commute)
  have between: "repos ?w1' ''/work/new'' = Some ?r"
    using first by (simp add: add_and_commit_def with_repo_def example_defs git_defs)
  have dirs1': "dirs ?w1' = dirs ?w1 \<and> disk ?w1' = disk ?w1"
    using first by (simp add: add_and_commit_def with_repo_def example_defs git_defs)
  have dir2: "fst (makedirs example_env ?w1' ''/work/new'') = Inr ()"
    using dirs1 dirs1' by (simp add: makedirs_def chain example_defs)
  from init_local_repo_twice [OF usr usr ne dir1 dir2 ini ini tool tool between]
  show ?thesis by (simp add: basename_def)
qed

subsection \<open>Falling back to the local template\<close>

text \<open>
  C7.  When the template source never answers with status 200 (another status, or a
  transport error), \<open>download_github_gitignore\<close> gives the result and the final world
  of \<open>generate_gitignore\<close> on the same path, for a given or an auto-detected project
  type: the same file with the same content.  The HTTP failure does not reach the
  caller: when the local write does not fail the call returns the path of the ignore
  file, which holds the stripped, newline-joined templates of the detected types.
\<close>

theorem download_falls_back_to_generate:
  assumes "\<forall>url body. http_get e url \<noteq> Response 200 body"
  shows "download_github_gitignore e p t w = generate_gitignore e p w \<and>
         (write_error e w (path_join p ''.gitignore'') = None \<longrightarrow>
            (\<exists>ts w'. detect_project_type e p = Inr ts \<and>
               download_github_gitignore e p t w = (Inr (path_join p ''.gitignore''), w') \<and>
               disk w' (path_join p ''.gitignore'')
                 = Some (strip (str_join ''\<newline>'' (map template_get ts)))))"
proof -
  have eq: "download_github_gitignore e p t w = generate_gitignore e p w"
  proof -
    from download_body_http_failure [OF assms, of p t w]
    consider "download_body e p t w = generate_gitignore e p w"
      | ex where "download_body e p t w = (Inl ex, w)" by blast
    then show ?thesis
    proof cases
      case 1
      show ?thesis
      proof (cases "generate_gitignore e p w")
        case (Pair res w1)
        show ?thesis
        proof (cases res)
          case (Inl ex)
          with Pair have "generate_gitignore e p w1 = (Inl ex, w1)"
            using generate_raise_again by blast
          with 1 Pair Inl show ?thesis by (simp add: download_github_gitignore_def)
        next
          case (Inr path)
          with 1 Pair show ?thesis by (simp add: download_github_gitignore_def)
        qed
      qed
    next
      case 2
      then show ?thesis by (simp add: download_github_gitignore_def)
    qed
  qed
  have ok: "write_error e w (path_join p ''.gitignore'') = None \<longrightarrow>
            (\<exists>ts w'. detect_project_type e p = Inr ts \<and>
               generate_gitignore e p w = (Inr (path_join p ''.gitignore''), w') \<and>
               disk w' (path_join p ''.gitignore'')
                 = Some (strip (str_join ''\<newline>'' (map template_get ts))))"
    by (auto simp: generate_gitignore_def Let_def write_text_def write_error_def
        detect_project_type_def commit_gitignore_def with_repo_def
        split: sum.splits option.splits prod.splits if_splits)
  from eq ok show ?thesis by simp
qed

theorem download_falls_back_to_generate_witness:
  "download_github_gitignore example_env ''/work/app'' None example_world
     = generate_gitignore example_env ''/work/app'' example_world \<and>
   fst (download_github_gitignore example_env ''/work/app'' None example_world)
     = Inr ''/work/app/.gitignore'' \<and>
   disk (snd (download_github_gitignore example_env ''/work/app'' None example_world))
        ''/work/app/.gitignore''
     = Some ''# Node.js dependencies\<newline>node_modules/\<newline>npm-debug.log\<newline>yarn-error.log''"
proof -
  have h: "\<forall>url body. http_get example_env url \<noteq> Response 200 body"
    by (simp add: example_env_def)
  have w: "write_error example_env example_world (path_join ''/work/app'' ''.gitignore'') = None"
    by (simp add: write_error_def example_env_def example_world_def path_join_def
        startswith_def endswith_def)
  have d: "detect_project_type example_env ''/work/app'' = Inr [''node'']"
    by (simp add: detect_project_type_def detect_body_def set_to_list_def endswith_def example_env_def)
  have p: "path_join ''/work/app'' ''.gitignore'' = ''/work/app/.gitignore''"
    by (simp add: path_join_def startswith_def endswith_def)
  have t: "strip (str_join ''\<newline>'' (map template_get [''node'']))
             = ''# Node.js dependencies\<newline>node_modules/\<newline>npm-debug.log\<newline>yarn-error.log''"
    by (simp add: strip_def template_get_def GITIGNORE_TEMPLATES_def text_block_def is_space_def)
  from download_falls_back_to_generate [OF h, of "''/work/app''" None example_world] w
  obtain ts w' where eq: "download_github_gitignore example_env ''/work/app'' None example_world
                            = generate_gitignore example_env ''/work/app'' example_world"
    and ts: "detect_project_type example_env ''/work/app'' = Inr ts"
    and run: "download_github_gitignore example_env ''/work/app'' None example_world
                = (Inr (path_join ''/work/app'' ''.gitignore''), w')"
    and content: "disk w' (path_join ''/work/app'' ''.gitignore'')
                    = Some (strip (str_join ''\<newline>'' (map template_get ts)))"
    by blast
  from ts d have node: "ts = [''node'']" by simp
  from eq run p have gen: "generate_gitignore example_env ''/work/app'' example_world
                             = (Inr ''/work/app/.gitignore'', w')" by simp
  from content node p t have stored: "disk w' ''/work/app/.gitignore''
       = Some ''# Node.js dependencies\<newline>node_modules/\<newline>npm-debug.log\<newline>yarn-error.log''"
    by simp
  from eq gen stored show ?thesis by simp
qed

subsection \<open>Batch writes\<close>

text \<open>
  C9.  \<open>add_multiple_files\<close> never raises.  Every entry ends up either in
  \<open>created_files\<close> or with one message in \<open>errors\<close>; \<open>created_files\<close> lists, in order, the
  paths of the entries that succeeded; \<open>success\<close> holds exactly when there is no error,
  that is when every entry was created.  An entry that fails is recorded and does not
  stop the batch: its message, which names the entry, follows the errors of the entries
  before it, and every entry after it is processed, each ending up created or with an
  error.  An entry that succeeds is listed in \<open>created_files\<close> right after the entries
  created before it, and the entries after it are processed as well.
\<close>

theorem add_multiple_files_independent:
  "(\<exists>res w'. add_multiple_files e p files w = (Inr res, w') \<and>
      length (created_files res) + length (errors res) = length files \<and>
      subseq (created_files res) (map fst files) \<and>
      (success res \<longleftrightarrow> errors res = []) \<and>
      (success res \<longleftrightarrow> created_files res = map fst files)) \<and>
   (\<forall>xs fp ct ys ex.
      files = xs @ (fp, ct) # ys \<and>
      fst (write_entry e p (fst (add_files_loop e p xs (w, [], []))) fp ct) = Inl ex \<longrightarrow>
      (\<exists>res w' resx wx c2 e2.
         add_multiple_files e p files w = (Inr res, w') \<and>
         add_multiple_files e p xs w = (Inr resx, wx) \<and>
         created_files res = created_files resx @ c2 \<and>
         errors res = errors resx
                        @ (''Failed to create file '' @ quoted fp @ '': '' @ str_exn ex) # e2 \<and>
         length c2 + length e2 = length ys)) \<and>
   (\<forall>xs fp ct ys.
      files = xs @ (fp, ct) # ys \<and>
      fst (write_entry e p (fst (add_files_loop e p xs (w, [], []))) fp ct) = Inr () \<longrightarrow>
      (\<exists>res w' resx wx c2 e2.
         add_multiple_files e p files w = (Inr res, w') \<and>
         add_multiple_files e p xs w = (Inr resx, wx) \<and>
         created_files res = created_files resx @ fp # c2 \<and>
         errors res = errors resx @ e2 \<and>
         length c2 + length e2 = length ys))"
proof -
  obtain w' c er where run: "add_files_loop e p files (w, [], []) = (w', c, er)"
    by (cases "add_files_loop e p files (w, [], [])")
  from add_files_loop_count [OF run]
  have cnt: "length c + length er = length files" and sub: "subseq c (map fst files)" by simp_all
  have all: "er = [] \<longleftrightarrow> c = map fst files"
  proof
    assume "er = []"
    with cnt have "length c = length (map fst files)" by simp
    with sub show "c = map fst files" by (simp add: subseq_same_length)
  next
    assume "c = map fst files"
    with cnt show "er = []" by simp
  qed
  have first: "\<exists>res w'. add_multiple_files e p files w = (Inr res, w') \<and>
      length (created_files res) + length (errors res) = length files \<and>
      subseq (created_files res) (map fst files) \<and>
      (success res \<longleftrightarrow> errors res = []) \<and>
      (success res \<longleftrightarrow> created_files res = map fst files)"
    using run cnt sub all by (simp add: add_multiple_files_def)
  have second: "\<forall>xs fp ct ys ex.
      files = xs @ (fp, ct) # ys \<and>
      fst (write_entry e p (fst (add_files_loop e p xs (w, [], []))) fp ct) = Inl ex \<longrightarrow>
      (\<exists>res w' resx wx c2 e2.
         add_multiple_files e p files w = (Inr res, w') \<and>
         add_multiple_files e p xs w = (Inr resx, wx) \<and>
         created_files res = created_files resx @ c2 \<and>
         errors res = errors resx
                        @ (''Failed to create file '' @ quoted fp @ '': '' @ str_exn ex) # e2 \<and>
         length c2 + length e2 = length ys)"
  proof (intro allI impI, elim conjE)
    fix xs fp ct ys ex
    assume split: "files = xs @ (fp, ct) # ys"
      and bad: "fst (write_entry e p (fst (add_files_loop e p xs (w, [], []))) fp ct) = Inl ex"
    obtain w1 c1 e1 where xs: "add_files_loop e p xs (w, [], []) = (w1, c1, e1)"
      by (cases "add_files_loop e p xs (w, [], [])")
    from bad xs have bad': "fst (write_entry e p w1 fp ct) = Inl ex" by simp
    from add_files_loop_fail [OF xs bad', of ys] obtain w2 c2 e2
      where "add_files_loop e p (xs @ (fp, ct) # ys) (w, [], [])
               = (w2, c1 @ c2,
                  e1 @ (''Failed to create file '' @ quoted fp @ '': '' @ str_exn ex) # e2)"
        and "length c2 + length e2 = length ys"
      by blast
    with split xs
    show "\<exists>res w' resx wx c2 e2.
         add_multiple_files e p files w = (Inr res, w') \<and>
         add_multiple_files e p xs w = (Inr resx, wx) \<and>
         created_files res = created_files resx @ c2 \<and>
         errors res = errors resx
                        @ (''Failed to create file '' @ quoted fp @ '': '' @ str_exn ex) # e2 \<and>
         length c2 + length e2 = length ys"
      by (simp add: add_multiple_files_def)
  qed
  have third: "\<forall>xs fp ct ys.
      files = xs @ (fp, ct) # ys \<and>
      fst (write_entry e p (fst (add_files_loop e p xs (w, [], []))) fp ct) = Inr () \<longrightarrow>
      (\<exists>res w' resx wx c2 e2.
         add_multiple_files e p files w = (Inr res, w') \<and>
         add_multiple_files e p xs w = (Inr resx, wx) \<and>
         created_files res = created_files resx @ fp # c2 \<and>
         errors res = errors resx @ e2 \<and>
         length c2 + length e2 = length ys)"
  proof (intro allI impI, elim conjE)
    fix xs fp ct ys
    assume split: "files = xs @ (fp, ct) # ys"
      and good: "fst (write_entry e p (fst (add_files_loop e p xs (w, [], []))) fp ct) = Inr ()"
    obtain w1 c1 e1 where xs: "add_files_loop e p xs (w, [], []) = (w1, c1, e1)"
      by (cases "add_files_loop e p xs (w, [], [])")
    from good xs have good': "fst (write_entry e p w1 fp ct) = Inr ()" by simp
    from add_files_loop_keep [OF xs good', of ys] obtain w2 c2 e2
      where "add_files_loop e p (xs @ (fp, ct) # ys) (w, [], []) = (w2, c1 @ fp # c2, e1 @ e2)"
        and "length c2 + length e2 = length ys"
      by blast
    with split xs
    show "\<exists>res w' resx wx c2 e2.
         add_multiple_files e p files w = (Inr res, w') \<and>
         add_multiple_files e p xs w = (Inr resx, wx) \<and>
         created_files res = created_files resx @ fp # c2 \<and>
         errors res = errors resx @ e2 \<and>
         length c2 + length e2 = length ys"
      by (simp add: add_multiple_files_def)
  qed
  from first second third show ?thesis by blast
qed

theorem add_multiple_files_independent_witness:
  "fst (write_entry example_env ''/work/app''
          (fst (add_files_loop example_env ''/work/app'' [(''src/a.txt'', ''A'')]
                  (example_world, [], [])))
          ''ro/b.txt'' ''B'') = Inl (OSError ''Permission denied'') \<and>
   fst (write_entry example_env ''/work/app''
          (fst (add_files_loop example_env ''/work/app''
                  [(''src/a.txt'', ''A''), (''ro/b.txt'', ''B'')] (example_world, [], [])))
          ''c.txt'' ''C'') = Inr () \<and>
   (\<exists>res w' resx wx c2 e2.
      add_multiple_files example_env ''/work/app''
        [(''src/a.txt'', ''A''), (''ro/b.txt'', ''B''), (''c.txt'', ''C'')] example_world = (Inr res, w') \<and>
      add_multiple_files example_env ''/work/app''
        [(''src/a.txt'', ''A'')] example_world = (Inr resx, wx) \<and>
      created_files res = created_files resx @ c2 \<and>
      errors res = errors resx @ ''Failed to create file 'ro/b.txt': Permission denied'' # e2 \<and>
      length c2 + length e2 = length [(''c.txt'', ''C'')]) \<and>
   (\<exists>res w' resx wx c2 e2.
      add_multiple_files example_env ''/work/app''
        [(''src/a.txt'', ''A''), (''ro/b.txt'', ''B''), (''c.txt'', ''C'')] example_world = (Inr res, w') \<and>
      add_multiple_files example_env ''/work/app''
        [(''src/a.txt'', ''A''), (''ro/b.txt'', ''B'')] example_world = (Inr resx, wx) \<and>
      created_files res = created_files resx @ ''c.txt'' # c2 \<and>
      errors res = errors resx @ e2 \<and>
      length c2 + length e2 = length ([] :: (string \<times> string) list))"
proof -
  let ?files = "[(''src/a.txt'', ''A''), (''ro/b.txt'', ''B''), (''c.txt'', ''C'')]"
  note fs_defs = write_entry_def write_text_def makedirs_def dir_chain_def components_def
    path_join_def dirname_def startswith_def endswith_def example_env_def example_world_def
  have bad: "fst (write_entry example_env ''/work/app''
          (fst (add_files_loop example_env ''/work/app'' [(''src/a.txt'', ''A'')]
                  (example_world, [], [])))
          ''ro/b.txt'' ''B'') = Inl (OSError ''Permission denied'')"
    by (simp add: fs_defs)
  have good: "fst (write_entry example_env ''/work/app''
          (fst (add_files_loop example_env ''/work/app''
                  [(''src/a.txt'', ''A''), (''ro/b.txt'', ''B'')] (example_world, [], [])))
          ''c.txt'' ''C'') = Inr ()"
    by (simp add: fs_defs)
  have split1: "?files = [(''src/a.txt'', ''A'')] @ (''ro/b.txt'', ''B'') # [(''c.txt'', ''C'')]"
    by simp
  have split2: "?files = [(''src/a.txt'', ''A''), (''ro/b.txt'', ''B'')] @ (''c.txt'', ''C'') # []"
    by simp
  note inst = add_multiple_files_independent [of example_env "''/work/app''" ?files example_world]
  from inst have failing: "\<forall>xs fp ct ys ex.
      ?files = xs @ (fp, ct) # ys \<and>
      fst (write_entry example_env ''/work/app''
             (fst (add_files_loop example_env ''/work/app'' xs (example_world, [], []))) fp ct) = Inl ex \<longrightarrow>
      (\<exists>res w' resx wx c2 e2.
         add_multiple_files example_env ''/work/app'' ?files example_world = (Inr res, w') \<and>
         add_multiple_files example_env ''/work/app'' xs example_world = (Inr resx, wx) \<and>
         created_files res = created_files resx @ c2 \<and>
         errors res = errors resx
                        @ (''Failed to create file '' @ quoted fp @ '': '' @ str_exn ex) # e2 \<and>
         length c2 + length e2 = length ys)"
    by blast
  from inst have succeeding: "\<forall>xs fp ct ys.
      ?files = xs @ (fp, ct) # ys \<and>
      fst (write_entry example_env ''/work/app''
             (fst (add_files_loop example_env ''/work/app'' xs (example_world, [], []))) fp ct) = Inr () \<longrightarrow>
      (\<exists>res w' resx wx c2 e2.
         add_multiple_files example_env ''/work/app'' ?files example_world = (Inr res, w') \<and>
         add_multiple_files example_env ''/work/app'' xs example_world = (Inr resx, wx) \<and>
         created_files res = created_files resx @ fp # c2 \<and>
         errors res = errors resx @ e2 \<and>
         length c2 + length e2 = length ys)"
    by blast
  have q: "''Failed to create file '' @ quoted ''ro/b.txt'' @ '': '' @ str_exn (OSError ''Permission denied'')
             = ''Failed to create file 'ro/b.txt': Permission denied''"
    by (simp add: quoted_def)
  from failing [rule_format, OF conjI [OF split1 bad]]
       succeeding [rule_format, OF conjI [OF split2 good]] bad good
  show ?thesis unfolding q by blast
qed

text \<open>
  What a failing entry did before it failed stays, and later entries see it.  The first
  entry below names a path that ends with a separator: the directory \<open>out/f.txt\<close> is
  created before opening fails, so the second entry fails as well, while on its own it
  is created.
\<close>

lemma add_multiple_files_failure_is_seen:
  "map_sum id created_files
     (fst (add_multiple_files example_env ''/work/app''
             [(''out/f.txt/'', ''A''), (''out/f.txt'', ''B'')] example_world)) = Inr [] \<and>
   map_sum id (\<lambda>res. length (errors res))
     (fst (add_multiple_files example_env ''/work/app''
             [(''out/f.txt/'', ''A''), (''out/f.txt'', ''B'')] example_world)) = Inr 2 \<and>
   map_sum id created_files
     (fst (add_multiple_files example_env ''/work/app''
             [(''out/f.txt'', ''B'')] example_world)) = Inr [''out/f.txt'']"
  by (simp add: add_multiple_files_def write_entry_def write_text_def makedirs_def
      dir_chain_def components_def path_join_def dirname_def startswith_def endswith_def
      example_env_def example_world_def)

end
